theory Spec2Isabelle
  imports Main
begin

text \<open>
  A model of \<open>calligrapher\<close>, the command-line runner of interactive fiction in
  \<open>calligrapher/src/cli.ts\<close> and \<open>calligrapher/src/compiler.ts\<close>: the terminal
  presenter, the plain-text interpreter with its parser and play loop, the compiler
  adapter, the session driver over the narrative engine, and the commands \<open>run\<close>,
  \<open>compile\<close> and \<open>replay\<close>. Functions keep the names they have in the source. What
  they do to the console, to the files and to subprocesses is a trace of events; what the
  player answers at the prompts is a list given beforehand.
\<close>

section \<open>Strings of the host language\<close>

text \<open>
  A JavaScript string is modelled as a \<^typ>\<open>string\<close>: a list of code units, each in
  the range 0..255. On that range the white space of \<open>String.prototype.trim\<close> and of the
  regular-expression class \<open>\s\<close> is TAB, LF, VT, FF, CR, SPACE and NBSP; the line
  terminators that \<open>.\<close> refuses are LF and CR.
\<close>

definition isSpace :: "char \<Rightarrow> bool" where
  "isSpace c =
     (c = CHR 0x09 \<or> c = CHR 0x0A \<or> c = CHR 0x0B \<or> c = CHR 0x0C \<or> c = CHR 0x0D
      \<or> c = CHR '' '' \<or> c = CHR 0xA0)"

definition isLineTerminator :: "char \<Rightarrow> bool" where
  "isLineTerminator c = (c = CHR 0x0A \<or> c = CHR 0x0D)"

definition trim :: "string \<Rightarrow> string" where
  "trim s = rev (dropWhile isSpace (rev (dropWhile isSpace s)))"

definition startsWith :: "string \<Rightarrow> string \<Rightarrow> bool" where
  "startsWith s p = (take (length p) s = p)"

definition endsWith :: "string \<Rightarrow> string \<Rightarrow> bool" where
  "endsWith s p = (length p \<le> length s \<and> drop (length s - length p) s = p)"

fun includesStr :: "string \<Rightarrow> string \<Rightarrow> bool" where
  "includesStr [] p = (p = [])"
| "includesStr (c # cs) p = (startsWith (c # cs) p \<or> includesStr cs p)"

definition lowerChar :: "char \<Rightarrow> char" where
  "lowerChar c =
     (let n = (of_char c :: nat) in
      if (65 \<le> n \<and> n \<le> 90) \<or> (192 \<le> n \<and> n \<le> 222 \<and> n \<noteq> 215)
      then char_of (n + 32) else c)"

definition toLowerCase :: "string \<Rightarrow> string" where
  "toLowerCase s = map lowerChar s"

section \<open>Console output and other effects\<close>

text \<open>
  Every effect of the tool is an event of one trace. A console line is recorded by the
  place that prints it and by the text it is given; the colour escapes of \<open>chalk\<close>, the
  frame of \<open>boxen\<close> and the pictographs are fixed by that place and are not repeated in
  the event.
\<close>

datatype style = Title | Scene | Combat | Dialog | Plain

datatype event =
    ShowText style string         \<comment> \<open>\<open>displayText\<close>: the text, in one style\<close>
  | PrintHeader string            \<comment> \<open>\<open>printHeader(title)\<close>\<close>
  | PrintFooter                   \<comment> \<open>\<open>printFooter()\<close>\<close>
  | LoadedFile string             \<comment> \<open>\<open>Loaded: <path>\<close>\<close>
  | SectionNotFound string        \<comment> \<open>\<open>Section "<name>" not found!\<close>\<close>
  | Narrative string              \<comment> \<open>a line of a section, printed in white\<close>
  | EndOfSection                  \<comment> \<open>\<open>[End of this section]\<close>\<close>
  | SelectPrompt "string list"    \<comment> \<open>a menu of \<open>enquirer\<close>, with its entries\<close>
  | ExistsSync string             \<comment> \<open>\<open>fs.existsSync(path)\<close>\<close>
  | ReadFileSync string           \<comment> \<open>\<open>fs.readFileSync(path, 'utf-8')\<close>\<close>
  | ChmodSync string              \<comment> \<open>\<open>fs.chmodSync(path, '755')\<close>\<close>
  | ExecSync string               \<comment> \<open>\<open>execSync(cmd, ...)\<close>: a subprocess is started\<close>
  | WriteFileSync string          \<comment> \<open>\<open>fs.writeFileSync(path, ...)\<close>\<close>
  | CompilerLog string            \<comment> \<open>a \<open>console.log\<close> of \<open>compileInk\<close> in verbose mode\<close>
  | InstallHelp string            \<comment> \<open>\<open>inkToJson\<close>: the error and the installation instructions\<close>
  | Compiling string              \<comment> \<open>\<open>Compiling: <path>\<close>\<close>
  | Compiled string               \<comment> \<open>\<open>Compiled: <path>\<close>\<close>
  | CompilationFailed string      \<comment> \<open>\<open>Compilation failed: <message>\<close>\<close>
  | CompilerMissing               \<comment> \<open>\<open>inklecate compiler not found!\<close> and the three lines after it\<close>
  | FallingBack                   \<comment> \<open>\<open>Falling back to text mode...\<close>\<close>
  | UnsupportedFormat string      \<comment> \<open>\<open>Unsupported file format: <ext>\<close> and the list of formats\<close>
  | ErrorLine string              \<comment> \<open>\<open>Error: <message>\<close>\<close>
  | Restoring string              \<comment> \<open>\<open>Restoring: <path>\<close>\<close>
  | GameRestored                  \<comment> \<open>\<open>Game restored!\<close>\<close>
  | RestoreFailed string          \<comment> \<open>\<open>Failed to restore game: <message>\<close>\<close>
  | ThanksForPlaying              \<comment> \<open>\<open>Thanks for playing!\<close>\<close>
  | ConfirmPrompt                 \<comment> \<open>the prompt of \<open>pressToContinue\<close>\<close>
  | InputPrompt string            \<comment> \<open>the prompt for the save path, with its default\<close>
  | GameSaved string              \<comment> \<open>\<open>Game saved to: <path>\<close>\<close>
  | SaveFailed string             \<comment> \<open>\<open>Failed to save game: <message>\<close>\<close>

section \<open>The terminal presenter: \<open>displayText\<close>\<close>

text \<open>
  \<open>displayText(text, tags)\<close> of \<open>cli.ts\<close>: nothing for a blank text, otherwise one
  \<open>console.log\<close>, in the style of the first test of the chain that succeeds.
\<close>

definition displayText :: "string \<Rightarrow> string list \<Rightarrow> event list" where
  "displayText text tags =
     (if trim text = [] then []
      else if ''title'' \<in> set tags then [ShowText Title text]
      else if ''scene'' \<in> set tags then [ShowText Scene text]
      else if ''combat'' \<in> set tags then [ShowText Combat text]
      else if ''dialog'' \<in> set tags then [ShowText Dialog text]
      else [ShowText Plain text])"

text \<open>
  The presentation rule in the words of the specification: the four recognised tags in
  their priority order, the style of the first of them that the tag list holds, and
  plain when it holds none.
\<close>

definition priorityOrder :: "(string \<times> style) list" where
  "priorityOrder =
     [(''title'', Title), (''scene'', Scene), (''combat'', Combat), (''dialog'', Dialog)]"

definition specStyle :: "string list \<Rightarrow> style" where
  "specStyle tags =
     (case filter (\<lambda>(t, _). t \<in> set tags) priorityOrder of
        [] \<Rightarrow> Plain
      | (_, st) # _ \<Rightarrow> st)"

section \<open>Results of a run\<close>

text \<open>
  A function of the tool returns, throws an exception (kept by its message), ends the
  process with \<open>process.exit\<close>, or stays at a prompt that is never answered.
\<close>

datatype 'a result = Returns 'a | Throws string | Exits nat | AwaitsInput

section \<open>Plain objects used as dictionaries\<close>

text \<open>
  \<open>runTextStory\<close> keeps its sections in \<open>const story: Record<string, string[]> = {}\<close>
  and the targets of a menu in \<open>const targets: Record<string, string> = {}\<close>. Both are
  plain objects, so a read \<open>story[k]\<close> of a key that is not an own property goes on to the
  prototype: \<open>Object.prototype\<close> at first. Its property names are those below;
  \<open>__proto__\<close> is an accessor there, so \<open>story['__proto__'] = []\<close> makes the new array
  the prototype of \<open>story\<close> instead of adding an own property, and from then on reads of
  the array's own properties (its indices and \<open>length\<close>) and of the names of
  \<open>Array.prototype\<close> (as of the Node 22 that \<open>compiler.ts\<close> names) are inherited too.
\<close>

definition objectPrototypeKeys :: "string list" where
  "objectPrototypeKeys =
     [''constructor'', ''__defineGetter__'', ''__defineSetter__'', ''hasOwnProperty'',
      ''__lookupGetter__'', ''__lookupSetter__'', ''isPrototypeOf'', ''propertyIsEnumerable'',
      ''toString'', ''valueOf'', ''__proto__'', ''toLocaleString'']"

definition arrayPrototypeKeys :: "string list" where
  "arrayPrototypeKeys =
     [''length'', ''constructor'', ''at'', ''concat'', ''copyWithin'', ''fill'', ''find'',
      ''findIndex'', ''findLast'', ''findLastIndex'', ''lastIndexOf'', ''pop'', ''push'',
      ''reverse'', ''shift'', ''unshift'', ''slice'', ''sort'', ''splice'', ''includes'',
      ''indexOf'', ''join'', ''keys'', ''entries'', ''values'', ''forEach'', ''filter'',
      ''flat'', ''flatMap'', ''map'', ''every'', ''some'', ''reduce'', ''reduceRight'',
      ''toReversed'', ''toSorted'', ''toSpliced'', ''with'', ''toLocaleString'', ''toString'']"

fun showNat :: "nat \<Rightarrow> string" where
  "showNat n =
     (if n < 10 then [char_of (48 + n)]
      else showNat (n div 10) @ [char_of (48 + n mod 10)])"

declare showNat.simps [simp del]

text \<open>What a read of the story object can give.\<close>

datatype jsvalue =
    VUndefined
  | VLines "string list"    \<comment> \<open>an array of lines\<close>
  | VString string          \<comment> \<open>an element of the array that is the prototype\<close>
  | VNumber nat             \<comment> \<open>the length of the array that is the prototype\<close>
  | VObject                 \<comment> \<open>an inherited function, or \<open>Object.prototype\<close> itself\<close>

record story_obj =
  own :: "string \<rightharpoonup> string list"
  proto :: "string list option"   \<comment> \<open>\<open>None\<close>: the prototype is \<open>Object.prototype\<close>\<close>

definition emptyStory :: story_obj where
  "emptyStory = \<lparr>own = Map.empty, proto = None\<rparr>"

definition story_get :: "story_obj \<Rightarrow> string \<Rightarrow> jsvalue" where
  "story_get st k =
     (if k = ''__proto__'' then
        (case proto st of None \<Rightarrow> VObject | Some ls \<Rightarrow> VLines ls)
      else
        (case own st k of
           Some ls \<Rightarrow> VLines ls
         | None \<Rightarrow>
             (case proto st of
                None \<Rightarrow> if k \<in> set objectPrototypeKeys then VObject else VUndefined
              | Some ls \<Rightarrow>
                  (case find (\<lambda>i. showNat i = k) [0..<length ls] of
                     Some i \<Rightarrow> VString (ls ! i)
                   | None \<Rightarrow>
                       if k = ''length'' then VNumber (length ls)
                       else if k \<in> set arrayPrototypeKeys \<or> k \<in> set objectPrototypeKeys
                       then VObject else VUndefined))))"

text \<open>
  The section map that the parser builds: the array that an assignment \<open>story[k] = []\<close>
  has bound to the name \<open>k\<close>, with the lines pushed to it since.
\<close>

definition sectionOf :: "story_obj \<Rightarrow> string \<Rightarrow> string list option" where
  "sectionOf st k = (if k = ''__proto__'' then proto st else own st k)"

text \<open>\<open>story[k] = []\<close>\<close>

definition story_reset :: "story_obj \<Rightarrow> string \<Rightarrow> story_obj" where
  "story_reset st k =
     (if k = ''__proto__'' then st\<lparr>proto := Some []\<rparr>
      else st\<lparr>own := (own st)(k \<mapsto> [])\<rparr>)"

text \<open>
  \<open>story[k].push(line)\<close>: the array read at \<open>k\<close> grows by one line; every other value
  read there has no \<open>push\<close> to call, and the call throws a \<open>TypeError\<close>.
\<close>

definition story_push :: "story_obj \<Rightarrow> string \<Rightarrow> string \<Rightarrow> string + story_obj" where
  "story_push st k line =
     (case story_get st k of
        VLines ls \<Rightarrow>
          Inr (if k = ''__proto__'' then st\<lparr>proto := Some (ls @ [line])\<rparr>
               else st\<lparr>own := (own st)(k \<mapsto> ls @ [line])\<rparr>)
      | _ \<Rightarrow> Inl ''story[currentSection].push is not a function'')"

text \<open>JavaScript's truth of a value, and what \<open>for (const line of v)\<close> runs through.\<close>

definition truthy :: "jsvalue \<Rightarrow> bool" where
  "truthy v =
     (case v of
        VUndefined \<Rightarrow> False
      | VLines _ \<Rightarrow> True
      | VString s \<Rightarrow> s \<noteq> []
      | VNumber n \<Rightarrow> n \<noteq> 0
      | VObject \<Rightarrow> True)"

definition iterate :: "jsvalue \<Rightarrow> string list option" where
  "iterate v =
     (case v of
        VLines ls \<Rightarrow> Some ls
      | VString s \<Rightarrow> Some (map (\<lambda>c. [c]) s)
      | _ \<Rightarrow> None)"

section \<open>The plain-text interpreter: parsing\<close>

text \<open>\<open>content.split('\n')\<close>: the pieces between line feeds, at least one piece.\<close>

fun splitLines :: "string \<Rightarrow> string \<Rightarrow> string list" where
  "splitLines acc [] = [rev acc]"
| "splitLines acc (c # cs) =
     (if c = CHR 0x0A then rev acc # splitLines [] cs else splitLines (c # acc) cs)"

text \<open>\<open>line.replace(/===/g, '')\<close>: every occurrence of three equals signs, left to right.\<close>

fun removeMarks :: "string \<Rightarrow> string" where
  "removeMarks (a # b # c # rest) =
     (if a = CHR ''='' \<and> b = CHR ''='' \<and> c = CHR ''='' then removeMarks rest
      else a # removeMarks (b # c # rest))"
| "removeMarks s = s"

record parse_state =
  story :: story_obj
  currentSection :: string
  allSections :: "string list"

text \<open>
  The two expressions of the first loop that decide on a section marker:
  \<open>line.startsWith('===')\<close> and \<open>line.replace(/===/g, '').trim()\<close>.
\<close>

definition isMarker :: "string \<Rightarrow> bool" where
  "isMarker line = startsWith line ''===''"

definition markerName :: "string \<Rightarrow> string" where
  "markerName line = trim (removeMarks line)"

text \<open>The body of the first loop of \<open>runTextStory\<close>, for one line.\<close>

definition parseStep :: "parse_state \<Rightarrow> string \<Rightarrow> string + parse_state" where
  "parseStep ps line =
     (if isMarker line then
        (let name = markerName line in
         Inr \<lparr>story = story_reset (story ps) name,
              currentSection = name,
              allSections = (if name \<in> set (allSections ps) then allSections ps
                             else allSections ps @ [name])\<rparr>)
      else if currentSection ps \<noteq> [] \<and> trim line \<noteq> [] then
        (case story_push (story ps) (currentSection ps) line of
           Inl e \<Rightarrow> Inl e
         | Inr st \<Rightarrow> Inr (ps\<lparr>story := st\<rparr>))
      else Inr ps)"

fun parseLines :: "string list \<Rightarrow> parse_state \<Rightarrow> string + parse_state" where
  "parseLines [] ps = Inr ps"
| "parseLines (line # rest) ps =
     (case parseStep ps line of
        Inl e \<Rightarrow> Inl e
      | Inr ps' \<Rightarrow> parseLines rest ps')"

definition initialParse :: parse_state where
  "initialParse = \<lparr>story = emptyStory, currentSection = [], allSections = []\<rparr>"

text \<open>\<open>content.split('\n').filter(line => line.trim())\<close>, then the loop.\<close>

definition contentLines :: "string \<Rightarrow> string list" where
  "contentLines content = filter (\<lambda>line. trim line \<noteq> []) (splitLines [] content)"

definition parseStory :: "string \<Rightarrow> string + story_obj" where
  "parseStory content =
     (case parseLines (contentLines content) initialParse of
        Inl e \<Rightarrow> Inl e
      | Inr ps \<Rightarrow> Inr (story ps))"

section \<open>The plain-text interpreter: one section\<close>

text \<open>
  The second loop of \<open>runTextStory\<close>: a line that starts with a star, or that holds
  \<open>[exit]\<close> in any case of letters, is kept as a candidate choice; every other line is
  printed.
\<close>

definition isCandidate :: "string \<Rightarrow> bool" where
  "isCandidate line = (startsWith line ''*'' \<or> includesStr (toLowerCase line) ''[exit]'')"

fun sortLines :: "string list \<Rightarrow> string list \<times> event list \<Rightarrow> string list \<times> event list" where
  "sortLines [] acc = acc"
| "sortLines (line # rest) (choiceLines, printed) =
     (if isCandidate line then sortLines rest (choiceLines @ [line], printed)
      else sortLines rest (choiceLines, printed @ [Narrative line]))"

text \<open>
  \<open>choice.match(/^\*?\s*(.+?)\s*->\s*(\S+)/)\<close>, piece by piece, in the order a
  backtracking matcher tries the alternatives.

  \<open>arrowTarget\<close> is the tail \<open>\s*->\s*(\S+)\<close>: white space, the arrow, white space and
  the longest run of characters that are not white space, which is group 2. No shorter
  run of white space can lead to a match, so the tail has one way to match at most.
\<close>

definition arrowTarget :: "string \<Rightarrow> string option" where
  "arrowTarget t =
     (case dropWhile isSpace t of
        a # b # u \<Rightarrow>
          if a = CHR ''-'' \<and> b = CHR ''>'' then
            (let g = takeWhile (\<lambda>c. \<not> isSpace c) (dropWhile isSpace u)
             in if g = [] then None else Some g)
          else None
      | _ \<Rightarrow> None)"

text \<open>
  \<open>(.+?)\<close>, lazy: one character that is no line terminator, then the tail; when the
  tail does not match there, one character more. \<open>acc\<close> holds group 1 so far, reversed.
\<close>

fun lazyText :: "string \<Rightarrow> string \<Rightarrow> (string \<times> string) option" where
  "lazyText acc [] = None"
| "lazyText acc (c # cs) =
     (if isLineTerminator c then None
      else (case arrowTarget cs of
              Some target \<Rightarrow> Some (rev (c # acc), target)
            | None \<Rightarrow> lazyText (c # acc) cs))"

text \<open>
  The first \<open>\s*\<close>, greedy: as much white space as there is, and one character less
  each time the rest fails.
\<close>

fun greedySpaces :: "string \<Rightarrow> (string \<times> string) option" where
  "greedySpaces [] = lazyText [] []"
| "greedySpaces (c # cs) =
     (if isSpace c then
        (case greedySpaces cs of
           Some m \<Rightarrow> Some m
         | None \<Rightarrow> lazyText [] (c # cs))
      else lazyText [] (c # cs))"

text \<open>\<open>^\*?\<close>: with the star when the line starts with one, without it when that fails.\<close>

definition choiceMatch :: "string \<Rightarrow> (string \<times> string) option" where
  "choiceMatch line =
     (case line of
        c # cs \<Rightarrow>
          if c = CHR ''*'' then
            (case greedySpaces cs of
               Some m \<Rightarrow> Some m
             | None \<Rightarrow> greedySpaces line)
          else greedySpaces line
      | [] \<Rightarrow> greedySpaces line)"

text \<open>
  What the pattern asks of a line, said without a search order: an optional star, white
  space, a text of at least one character with no line terminator in it, and the tail
  with the arrow and the target.
\<close>

definition textThenArrow :: "string \<Rightarrow> bool" where
  "textThenArrow s =
     (\<exists>g tail. s = g @ tail \<and> g \<noteq> [] \<and> (\<forall>c \<in> set g. \<not> isLineTerminator c)
        \<and> arrowTarget tail \<noteq> None)"

definition spacesTextArrow :: "string \<Rightarrow> bool" where
  "spacesTextArrow s = (\<exists>ws t. s = ws @ t \<and> (\<forall>c \<in> set ws. isSpace c) \<and> textThenArrow t)"

definition arrowPattern :: "string \<Rightarrow> bool" where
  "arrowPattern line =
     (spacesTextArrow line \<or> (\<exists>cs. line = CHR ''*'' # cs \<and> spacesTextArrow cs))"

text \<open>\<open>textMatch[1].replace(/^\*\s*/, '').replace(/[\[\]]/g, '').trim()\<close>\<close>

definition choiceTextOf :: "string \<Rightarrow> string" where
  "choiceTextOf g =
     trim (filter (\<lambda>c. c \<noteq> CHR ''['' \<and> c \<noteq> CHR '']'')
             (case g of
                c # cs \<Rightarrow> if c = CHR ''*'' then dropWhile isSpace cs else g
              | [] \<Rightarrow> g))"

text \<open>
  \<open>targets[choiceText] = target\<close> on the plain object \<open>targets\<close>: an own property, but
  for the key \<open>__proto__\<close>, whose setter ignores a string.
\<close>

definition targets_set :: "(string \<rightharpoonup> string) \<Rightarrow> string \<Rightarrow> string \<Rightarrow> (string \<rightharpoonup> string)" where
  "targets_set tg k v = (if k = ''__proto__'' then tg else tg(k \<mapsto> v))"

text \<open>
  \<open>targets[key] || current\<close>, as the rest of the loop sees it. \<open>current\<close> is only ever
  used as a property key and inside a template string, so it is kept as the string it
  converts to: an inherited value becomes \<open>[object Object]\<close> for \<open>Object.prototype\<close> and
  the text of a native function otherwise.
\<close>

definition inheritedAsString :: "string \<Rightarrow> string" where
  "inheritedAsString k =
     (if k = ''__proto__'' then ''[object Object]''
      else ''function '' @ (if k = ''constructor'' then ''Object'' else k)
           @ ''() { [native code] }'')"

definition targets_or :: "(string \<rightharpoonup> string) \<Rightarrow> string \<Rightarrow> string \<Rightarrow> string" where
  "targets_or tg key current =
     (case (if key = ''__proto__'' then None else tg key) of
        Some target \<Rightarrow> if target = [] then current else target
      | None \<Rightarrow>
          if key \<in> set objectPrototypeKeys then inheritedAsString key else current)"

text \<open>The third loop of \<open>runTextStory\<close>: the candidates that match become choices.\<close>

fun extractChoices ::
  "string list \<Rightarrow> string list \<times> (string \<rightharpoonup> string) \<Rightarrow> string list \<times> (string \<rightharpoonup> string)" where
  "extractChoices [] acc = acc"
| "extractChoices (choice # rest) (choices, targets) =
     (case choiceMatch choice of
        None \<Rightarrow> extractChoices rest (choices, targets)
      | Some (g1, target) \<Rightarrow>
          (let choiceText = choiceTextOf g1
           in extractChoices rest (choices @ [choiceText], targets_set targets choiceText target)))"

text \<open>
  \<open>choices[selection]\<close>. The \<open>select\<close> prompt of \<open>enquirer\<close> resolves to the name of
  the entry that was picked, a string, as \<open>displayAndChoose\<close> reads it; the type
  \<open>{ selection: number }\<close> that \<open>runTextStory\<close> gives the answer does not change the
  value. So the read is a read of the array \<open>choices\<close> by a string key: an element when
  the key is the decimal form of an index, the length for \<open>length\<close>, an inherited
  function for a name of \<open>Array.prototype\<close> or \<open>Object.prototype\<close> (\<open>Array.prototype\<close>
  itself for \<open>__proto__\<close>), and \<open>undefined\<close> for every other key. An inherited value is
  kept as the string it converts to.
\<close>

datatype picked =
    PUndefined
  | PString string
  | PNumber nat
  | PInherited string

definition choicesAt :: "string list \<Rightarrow> string \<Rightarrow> picked" where
  "choicesAt xs key =
     (case find (\<lambda>i. showNat i = key) [0..<length xs] of
        Some i \<Rightarrow> PString (xs ! i)
      | None \<Rightarrow>
          if key = ''length'' then PNumber (length xs)
          else if key = ''__proto__'' then PInherited []
          else if key \<in> set arrayPrototypeKeys \<or> key \<in> set objectPrototypeKeys then
            PInherited (''function '' @ (if key = ''constructor'' then ''Array'' else key)
                        @ ''() { [native code] }'')
          else PUndefined)"

text \<open>The property key that \<open>targets[selected]\<close> reads: the value as a string.\<close>

definition pickedKey :: "picked \<Rightarrow> string" where
  "pickedKey v =
     (case v of
        PUndefined \<Rightarrow> ''undefined''
      | PString t \<Rightarrow> t
      | PNumber n \<Rightarrow> showNat n
      | PInherited t \<Rightarrow> t)"

section \<open>The plain-text interpreter: the play loop\<close>

text \<open>
  The \<open>while (playAgain)\<close> loop. The answers of the player are the values that the
  \<open>select\<close> prompt resolves to, one per menu: the names of the entries picked. The loop
  gives the trace, the section pointer \<open>current\<close> it ends with, and how it ended. A value that is true and cannot be
  iterated makes \<open>for (const line of lines)\<close> throw the \<open>TypeError\<close>
  \<open>lines is not iterable\<close>.
\<close>

fun runLoop :: "story_obj \<Rightarrow> string \<Rightarrow> string list \<Rightarrow> event list \<times> string \<times> unit result" where
  "runLoop st current answers =
     (let v = story_get st current in
      if \<not> truthy v then ([SectionNotFound current], current, Returns ())
      else
        (case iterate v of
           None \<Rightarrow> ([], current, Throws ''lines is not iterable'')
         | Some lines \<Rightarrow>
             (case sortLines lines ([], []) of (choiceLines, printed) \<Rightarrow>
             (case extractChoices choiceLines ([], Map.empty) of (choices, targets) \<Rightarrow>
                if choices \<noteq> [] then
                  (let menu = choices @ [''Quit''] in
                   (case answers of
                      [] \<Rightarrow> (printed @ [SelectPrompt menu], current, AwaitsInput)
                    | selection # rest \<Rightarrow>
                        (let selected = choicesAt menu selection in
                         if selected = PString ''Quit'' then
                           (printed @ [SelectPrompt menu], current, Returns ())
                         else
                           (case runLoop st (targets_or targets (pickedKey selected) current)
                                   rest of
                              (out, final, r) \<Rightarrow>
                                (printed @ [SelectPrompt menu] @ out, final, r)))))
                else (printed @ [EndOfSection], current, Returns ())))))"

declare runLoop.simps [simp del]

section \<open>Files\<close>

datatype node = File string | Directory

type_synonym filesystem = "string \<rightharpoonup> node"

definition existsSync :: "filesystem \<Rightarrow> string \<Rightarrow> bool" where
  "existsSync fs p = (fs p \<noteq> None)"

text \<open>A name between apostrophes, as the messages of Node and of V8 quote it.\<close>

definition apostrophes :: "string \<Rightarrow> string" where
  "apostrophes p = CHR 0x27 # p @ [CHR 0x27]"

text \<open>\<open>fs.readFileSync(path, 'utf-8')\<close>: the text of a file, an exception otherwise.\<close>

definition readFileSync :: "filesystem \<Rightarrow> string \<Rightarrow> string + string" where
  "readFileSync fs p =
     (case fs p of
        Some (File content) \<Rightarrow> Inr content
      | Some Directory \<Rightarrow> Inl ''EISDIR: illegal operation on a directory, read''
      | None \<Rightarrow> Inl (''ENOENT: no such file or directory, open '' @ apostrophes p))"

section \<open>The plain-text interpreter: \<open>runTextStory\<close>\<close>

definition runTextStory :: "filesystem \<Rightarrow> string \<Rightarrow> string list \<Rightarrow> event list \<times> unit result" where
  "runTextStory fs filePath answers =
     (case readFileSync fs filePath of
        Inl e \<Rightarrow> ([ReadFileSync filePath], Throws e)
      | Inr content \<Rightarrow>
          (case parseStory content of
             Inl e \<Rightarrow> ([ReadFileSync filePath], Throws e)
           | Inr st \<Rightarrow>
               (case runLoop st ''start'' answers of
                  (out, final, Returns u) \<Rightarrow>
                    ([ReadFileSync filePath, LoadedFile filePath] @ out @ [PrintFooter], Returns ())
                | (out, final, r) \<Rightarrow>
                    ([ReadFileSync filePath, LoadedFile filePath] @ out, r))))"

section \<open>The host\<close>

text \<open>
  What \<open>compiler.ts\<close> and \<open>cli.ts\<close> take from Node and from the operating system:
  \<open>os.platform()\<close>, \<open>os.homedir()\<close>, \<open>process.cwd()\<close>, \<open>__dirname\<close>, the library
  functions \<open>path.join\<close>, \<open>path.extname\<close> and \<open>path.basename\<close>, the subprocess that
  \<open>execSync\<close> runs (it throws, or it leaves the files changed), \<open>fs.writeFileSync\<close>
  (likewise), \<open>JSON.parse\<close>, \<open>JSON.stringify\<close> and the clock.
\<close>

datatype json =
    JNull
  | JBool bool
  | JNumber int
  | JString string
  | JArray "json list"
  | JObject "(string \<times> json) list"

record host =
  platform :: string
  homedir :: string
  cwd :: string
  dirname :: string
  pathJoin :: "string list \<Rightarrow> string"
  extname :: "string \<Rightarrow> string"
  basename :: "string \<Rightarrow> string"
  execSync :: "string \<Rightarrow> filesystem \<Rightarrow> string + filesystem"
  writeFileSync :: "filesystem \<Rightarrow> string \<Rightarrow> string \<Rightarrow> string + filesystem"
  jsonParse :: "string \<Rightarrow> string + json"
  jsonStringify :: "json \<Rightarrow> string"
  now :: string

section \<open>The compiler adapter: \<open>findInklecate\<close>\<close>

definition possiblePaths :: "host \<Rightarrow> string list" where
  "possiblePaths h =
     [pathJoin h [dirname h, ''..'', ''..'', ''bin'', ''inklecate''],
      pathJoin h [dirname h, ''..'', ''..'', ''bin'',
                  if platform h = ''win32'' then ''inklecate_win.exe'' else ''inklecate''],
      pathJoin h [cwd h, ''bin'', ''inklecate''],
      pathJoin h [cwd h, ''bin'',
                  if platform h = ''win32'' then ''inklecate_win.exe'' else ''inklecate''],
      pathJoin h [dirname h, ''..'', ''bin'', ''inklecate''],
      ''/usr/local/bin/inklecate'',
      ''/usr/bin/inklecate'',
      pathJoin h [homedir h, ''.local'', ''bin'', ''inklecate''],
      pathJoin h [homedir h, ''bin'', ''inklecate''],
      pathJoin h [homedir h, ''.nvm'', ''versions'', ''node'', ''v22.15.0'', ''lib'',
                  ''node_modules'', ''@6i'', ''ink-tools'', ''bin'', ''inklecate'',
                  ''inklecate_win.exe'']]"

definition linuxPaths :: "string list" where
  "linuxPaths = [''/usr/bin/inklecate'', ''/usr/local/bin/inklecate'']"

text \<open>
  The first loop of \<open>findInklecate\<close>: the first path that exists wins, and it is made
  executable unless the platform is Windows or the path ends in \<open>.exe\<close>; a failure of
  \<open>chmodSync\<close> is caught and ignored. \<open>seen\<close> is the trace so far.
\<close>

fun probePaths ::
  "host \<Rightarrow> filesystem \<Rightarrow> string list \<Rightarrow> event list \<Rightarrow> string option \<times> event list" where
  "probePaths h fs [] seen = (None, seen)"
| "probePaths h fs (p # ps) seen =
     (if existsSync fs p then
        (if platform h \<noteq> ''win32'' \<and> \<not> endsWith p ''.exe''
         then (Some p, seen @ [ExistsSync p, ChmodSync p])
         else (Some p, seen @ [ExistsSync p]))
      else probePaths h fs ps (seen @ [ExistsSync p]))"

text \<open>The second loop, on Linux only: the first path that exists.\<close>

fun probeLinux :: "filesystem \<Rightarrow> string list \<Rightarrow> event list \<Rightarrow> string option \<times> event list" where
  "probeLinux fs [] seen = (None, seen)"
| "probeLinux fs (p # ps) seen =
     (if existsSync fs p then (Some p, seen @ [ExistsSync p])
      else probeLinux fs ps (seen @ [ExistsSync p]))"

definition findInklecate :: "host \<Rightarrow> filesystem \<Rightarrow> string option \<times> event list" where
  "findInklecate h fs =
     (case probePaths h fs (possiblePaths h) [] of
        (Some p, seen) \<Rightarrow> (Some p, seen)
      | (None, seen) \<Rightarrow>
          if platform h = ''linux'' then probeLinux fs linuxPaths seen
          else (None, seen))"

section \<open>The compiler adapter: \<open>compileInk\<close> and \<open>inkToJson\<close>\<close>

record compile_options =
  inputPath :: string
  outputPathOption :: "string option"
  verbose :: bool

record compiler_result =
  success :: bool
  outputPath :: "string option"
  error :: "string option"
  inklecatePath :: "string option"

text \<open>\<open>inputPath.replace(/\.ink$/, '.json')\<close>\<close>

definition inkToJsonName :: "string \<Rightarrow> string" where
  "inkToJsonName p =
     (if endsWith p ''.ink'' then take (length p - 4) p @ ''.json'' else p)"

text \<open>The command line: each path between double quotes, \<open>mono\<close> in front of an \<open>.exe\<close>.\<close>

definition quoted :: "string \<Rightarrow> string" where
  "quoted p = CHR 0x22 # p @ [CHR 0x22]"

definition compilerCommand :: "string \<Rightarrow> string \<Rightarrow> string \<Rightarrow> string" where
  "compilerCommand compiler finalOutput input =
     (if endsWith compiler ''.exe''
      then ''/usr/bin/mono '' @ quoted compiler @ '' -o '' @ quoted finalOutput @ '' '' @ quoted input
      else quoted compiler @ '' -o '' @ quoted finalOutput @ '' '' @ quoted input)"

definition failure :: "string \<Rightarrow> compiler_result" where
  "failure msg = \<lparr>success = False, outputPath = None, error = Some msg, inklecatePath = None\<rparr>"

text \<open>
  \<open>compileInk(options)\<close>: its result, its trace and the files it leaves. Every exception
  of the \<open>try\<close> block becomes a failure result. A file of the model never starts with the
  byte order mark U+FEFF, which is no code unit below 256, so the branch that strips one
  from the output is never taken and is left out.
\<close>

definition compileInk ::
  "host \<Rightarrow> filesystem \<Rightarrow> compile_options \<Rightarrow> compiler_result \<times> event list \<times> filesystem" where
  "compileInk h fs options =
     (if \<not> existsSync fs (inputPath options) then
        (failure (''Input file not found: '' @ inputPath options),
         [ExistsSync (inputPath options)], fs)
      else
        (let ext = toLowerCase (extname h (inputPath options)) in
         if ext \<noteq> ''.ink'' then
           (failure (''Expected .ink file, got: '' @ ext), [ExistsSync (inputPath options)], fs)
         else
           (case findInklecate h fs of
              (None, seen) \<Rightarrow>
                (\<lparr>success = False, outputPath = None,
                  error = Some ''inklecate compiler not found.'', inklecatePath = Some []\<rparr>,
                 ExistsSync (inputPath options) # seen, fs)
            | (Some compiler, seen) \<Rightarrow>
                (let defaultOutput = inkToJsonName (inputPath options);
                     finalOutput = (case outputPathOption options of
                                      None \<Rightarrow> defaultOutput
                                    | Some p \<Rightarrow> if p = [] then defaultOutput else p);
                     cmd = compilerCommand compiler finalOutput (inputPath options);
                     logs = (if verbose options
                             then [CompilerLog (''Compiling: '' @ inputPath options),
                                   CompilerLog (''Output: '' @ finalOutput),
                                   CompilerLog (''Compiler: '' @ compiler)]
                             else []);
                     before = ExistsSync (inputPath options) # seen @ logs @ [ExecSync cmd]
                 in (case execSync h cmd fs of
                       Inl msg \<Rightarrow> (failure (''Compilation failed: '' @ msg), before, fs)
                     | Inr fs' \<Rightarrow>
                         (case readFileSync fs' finalOutput of
                            Inl msg \<Rightarrow>
                              (failure (''Compilation failed: '' @ msg),
                               before @ [ReadFileSync finalOutput], fs')
                          | Inr content \<Rightarrow>
                              (\<lparr>success = True, outputPath = Some finalOutput, error = None,
                                inklecatePath = None\<rparr>,
                               before @ [ReadFileSync finalOutput]
                                 @ (if verbose options
                                    then [CompilerLog ''Compilation successful!''] else []),
                               fs')))))))"

text \<open>\<open>getInklecateInstallationInstructions()\<close>: a fixed text, kept by its first line.\<close>

definition installationInstructions :: string where
  "installationInstructions = ''Install inklecate using one of these methods:''"

text \<open>
  \<open>inkToJson(inputPath, outputPath?)\<close>: the output path, or the exception
  \<open>new Error(result.error)\<close>.
\<close>

definition inkToJson ::
  "host \<Rightarrow> filesystem \<Rightarrow> string \<Rightarrow> string option \<Rightarrow> string result \<times> event list \<times> filesystem" where
  "inkToJson h fs input output =
     (case compileInk h fs \<lparr>inputPath = input, outputPathOption = output, verbose = False\<rparr> of
        (r, seen, fs') \<Rightarrow>
          if \<not> success r then
            (let msg = (case error r of None \<Rightarrow> [] | Some e \<Rightarrow> e) in
             (Throws msg,
              seen @ (if includesStr msg ''inklecate compiler not found''
                      then [InstallHelp msg, InstallHelp installationInstructions] else []),
              fs'))
          else
            (case outputPath r of
               Some p \<Rightarrow> (Returns p, seen, fs')
             | None \<Rightarrow> (Returns [], seen, fs')))"

section \<open>The narrative engine\<close>

text \<open>
  The \<open>Story\<close> class of \<open>inkjs\<close> is not part of the repository. The tool uses the
  constructor, the getters \<open>canContinue\<close>, \<open>currentChoices\<close> (of which it reads the
  texts) and \<open>currentTags\<close> (which may be \<open>null\<close>), and the methods \<open>Continue\<close>,
  \<open>ChooseChoiceIndex\<close>, \<open>ToJson\<close>, \<open>state.ToJson\<close> and \<open>state.LoadJson\<close>. A
  constructor or a method may throw: \<open>Inl\<close> holds the message.
\<close>

record 's engine =
  newStory :: "json \<Rightarrow> string + 's"
  canContinue :: "'s \<Rightarrow> bool"
  Continue :: "'s \<Rightarrow> string + string \<times> 's"
  currentChoices :: "'s \<Rightarrow> string list"
  currentTags :: "'s \<Rightarrow> string list option"
  ChooseChoiceIndex :: "'s \<Rightarrow> int \<Rightarrow> string + 's"
  ToJson :: "'s \<Rightarrow> string + string"
  stateToJson :: "'s \<Rightarrow> string + string"
  stateLoadJson :: "'s \<Rightarrow> json \<Rightarrow> string + 's"



text \<open>The \<open>StoryState\<close> of \<open>cli.ts\<close>.\<close>

record story_state =
  currentText :: string
  choices :: "string list"
  stateCanContinue :: bool
  tags :: "string list"

text \<open>
  The answers of the player in the engine's loop, one list for each kind of prompt: the
  entry names that the \<open>select\<close> prompts resolve to, the answers of the \<open>confirm\<close>
  prompts, and the paths typed at the \<open>input\<close> prompts.
\<close>

record replies =
  picks :: "string list"
  confirms :: "bool list"
  paths :: "string list"

section \<open>The session driver\<close>

text \<open>
  \<open>advanceStory()\<close>: one unit of text when the engine can continue, the state that the
  presenter is given, and the text displayed.
\<close>

definition advanceStory :: "'s engine \<Rightarrow> 's \<Rightarrow> string + ('s \<times> story_state \<times> event list)" where
  "advanceStory eng s =
     (case (if canContinue eng s then Continue eng s else Inr ([], s)) of
        Inl e \<Rightarrow> Inl e
      | Inr (text, s') \<Rightarrow>
          (let chs = currentChoices eng s';
               tgs = (case currentTags eng s' of None \<Rightarrow> [] | Some t \<Rightarrow> t)
           in Inr (s',
                   \<lparr>currentText = text, choices = chs,
                    stateCanContinue = (canContinue eng s' \<or> chs \<noteq> []), tags = tgs\<rparr>,
                   displayText text tgs)))"

text \<open>
  The menu of \<open>displayAndChoose\<close>: the choices, numbered from 1 and with their indices
  as values, then \<open>0. Quit\<close> with the value -1 and \<open>S. Save game\<close> with the value -2.
\<close>

definition menuEntries :: "string list \<Rightarrow> (string \<times> int) list" where
  "menuEntries chs =
     map (\<lambda>i. (showNat (i + 1) @ ''. '' @ chs ! i, int i)) [0..<length chs]
     @ [(''0. Quit'', -1), (''S. Save game'', -2)]"

text \<open>
  \<open>saveGame()\<close>: the save document is built, the path is asked for, and the document is
  written; a failure to write is reported and the game goes on.
\<close>

definition saveGame ::
  "host \<Rightarrow> 's engine \<Rightarrow> filesystem \<Rightarrow> 's \<Rightarrow> string list
     \<Rightarrow> event list \<times> unit result \<times> filesystem \<times> string list" where
  "saveGame h eng fs s typed =
     (case ToJson eng s of
        Inl e \<Rightarrow> ([], Throws e, fs, typed)
      | Inr storyJson \<Rightarrow>
          (case stateToJson eng s of
             Inl e \<Rightarrow> ([], Throws e, fs, typed)
           | Inr state \<Rightarrow>
               (let saveData = JObject [(''storyJson'', JString storyJson),
                                        (''state'', JString state),
                                        (''savedAt'', JString (now h)),
                                        (''version'', JString ''1.0'')]
                in (case typed of
                      [] \<Rightarrow> ([InputPrompt ''calligrapher-save.json''], AwaitsInput, fs, [])
                    | savePath # rest \<Rightarrow>
                        (case writeFileSync h fs savePath (jsonStringify h saveData) of
                           Inl e \<Rightarrow>
                             ([InputPrompt ''calligrapher-save.json'', WriteFileSync savePath,
                               SaveFailed e], Returns (), fs, rest)
                         | Inr fs' \<Rightarrow>
                             ([InputPrompt ''calligrapher-save.json'', WriteFileSync savePath,
                               GameSaved savePath], Returns (), fs', rest))))))"

text \<open>
  \<open>runStoryLoop()\<close> with \<open>displayAndChoose()\<close> and \<open>pressToContinue()\<close> in place. Each
  turn that goes on has taken one answer of a \<open>select\<close> or of a \<open>confirm\<close> prompt.
\<close>

function runStoryLoop ::
  "host \<Rightarrow> 's engine \<Rightarrow> filesystem \<Rightarrow> 's \<Rightarrow> replies \<Rightarrow> event list \<times> unit result \<times> filesystem" where
  "runStoryLoop h eng fs s rp =
     (case advanceStory eng s of
        Inl e \<Rightarrow> ([], Throws e, fs)
      | Inr (s1, cs, shown) \<Rightarrow>
          if stateCanContinue cs \<or> choices cs \<noteq> [] then
            (if choices cs \<noteq> [] then
               (let menu = SelectPrompt (map fst (menuEntries (choices cs))) in
                case picks rp of
                  [] \<Rightarrow> (shown @ [menu], AwaitsInput, fs)
                | choice # later \<Rightarrow>
                    (case map_option snd (find (\<lambda>c. fst c = choice) (menuEntries (choices cs))) of
                       None \<Rightarrow>
                         (case runStoryLoop h eng fs s1 (rp\<lparr>picks := later\<rparr>) of
                            (out, r, fs') \<Rightarrow> (shown @ [menu] @ out, r, fs'))
                     | Some selectedIndex \<Rightarrow>
                         if selectedIndex = -1 then
                           (shown @ [menu, ThanksForPlaying], Exits 0, fs)
                         else if selectedIndex = -2 then
                           (case saveGame h eng fs s1 (paths rp) of
                              (saved, Returns u, fs1, typed) \<Rightarrow>
                                (case runStoryLoop h eng fs1 s1 (rp\<lparr>picks := later, paths := typed\<rparr>) of
                                   (out, r, fs') \<Rightarrow> (shown @ [menu] @ saved @ out, r, fs'))
                            | (saved, r, fs1, typed) \<Rightarrow> (shown @ [menu] @ saved, r, fs1))
                         else
                           (case ChooseChoiceIndex eng s1 selectedIndex of
                              Inl e \<Rightarrow> (shown @ [menu], Throws e, fs)
                            | Inr s2 \<Rightarrow>
                                (case runStoryLoop h eng fs s2 (rp\<lparr>picks := later\<rparr>) of
                                   (out, r, fs') \<Rightarrow> (shown @ [menu] @ out, r, fs')))))
             else if stateCanContinue cs then
               (case confirms rp of
                  [] \<Rightarrow> (shown @ [ConfirmPrompt], AwaitsInput, fs)
                | cont # later \<Rightarrow>
                    if \<not> cont then (shown @ [ConfirmPrompt, ThanksForPlaying], Exits 0, fs)
                    else
                      (case runStoryLoop h eng fs s1 (rp\<lparr>confirms := later\<rparr>) of
                         (out, r, fs') \<Rightarrow> (shown @ [ConfirmPrompt] @ out, r, fs')))
             else
               (case runStoryLoop h eng fs s1 rp of
                  (out, r, fs') \<Rightarrow> (shown @ out, r, fs')))
          else (shown, Returns (), fs))"
  by pat_completeness auto
termination
  by (relation "measure (\<lambda>(h, eng, fs, s, rp). length (picks rp) + length (confirms rp))") auto

declare runStoryLoop.simps [simp del]

section \<open>The commands of the tool\<close>

text \<open>
  \<open>runJsonStory(filePath)\<close>: whatever is thrown inside is thrown again with the prefix
  \<open>Failed to load story\<close>. (No file of the model starts with a byte order mark.)
\<close>

definition runJsonStory ::
  "host \<Rightarrow> 's engine \<Rightarrow> filesystem \<Rightarrow> string \<Rightarrow> replies \<Rightarrow> event list \<times> unit result \<times> filesystem" where
  "runJsonStory h eng fs filePath rp =
     (case readFileSync fs filePath of
        Inl e \<Rightarrow> ([ReadFileSync filePath], Throws (''Failed to load story: '' @ e), fs)
      | Inr jsonContent \<Rightarrow>
          (case newStory eng (JString jsonContent) of
             Inl e \<Rightarrow> ([ReadFileSync filePath], Throws (''Failed to load story: '' @ e), fs)
           | Inr s \<Rightarrow>
               (case runStoryLoop h eng fs s rp of
                  (out, Returns u, fs') \<Rightarrow>
                    ([ReadFileSync filePath, PrintHeader (''Playing: '' @ basename h filePath)]
                       @ out @ [PrintFooter], Returns (), fs')
                | (out, Throws e, fs') \<Rightarrow>
                    ([ReadFileSync filePath, PrintHeader (''Playing: '' @ basename h filePath)]
                       @ out, Throws (''Failed to load story: '' @ e), fs')
                | (out, r, fs') \<Rightarrow>
                    ([ReadFileSync filePath, PrintHeader (''Playing: '' @ basename h filePath)]
                       @ out, r, fs'))))"

text \<open>
  \<open>runInkStory(filePath)\<close>. \<open>verbosity\<close> is \<open>this.options.verbose\<close>; \<open>selections\<close> are
  the answers to the menus of the plain-text interpreter, \<open>rp\<close> those to the prompts of
  the engine's loop.
\<close>

definition runInkStory ::
  "host \<Rightarrow> 's engine \<Rightarrow> filesystem \<Rightarrow> nat \<Rightarrow> string \<Rightarrow> string list \<Rightarrow> replies
     \<Rightarrow> event list \<times> unit result \<times> filesystem" where
  "runInkStory h eng fs verbosity filePath selections rp =
     (let banner = (if verbosity > 0 then [Compiling filePath] else []) in
      case findInklecate h fs of
        (None, seen) \<Rightarrow>
          (case runTextStory fs filePath selections of
             (out, r) \<Rightarrow> (banner @ seen @ [CompilerMissing] @ out, r, fs))
      | (Some compiler, seen) \<Rightarrow>
          (let jsonPath = inkToJsonName filePath in
           case compileInk h fs \<lparr>inputPath = filePath, outputPathOption = Some jsonPath,
                                 verbose = (verbosity > 0)\<rparr> of
             (result, compiling, fs1) \<Rightarrow>
               if \<not> success result then
                 (case runTextStory fs1 filePath selections of
                    (out, r) \<Rightarrow>
                      (banner @ seen @ compiling
                         @ [CompilationFailed (case error result of None \<Rightarrow> [] | Some e \<Rightarrow> e),
                            FallingBack] @ out, r, fs1))
               else
                 (case runJsonStory h eng fs1 jsonPath rp of
                    (played, Throws e, fs2) \<Rightarrow>
                      (case runTextStory fs2 filePath selections of
                         (out, r) \<Rightarrow>
                           (banner @ seen @ compiling @ played
                              @ [CompilationFailed e, FallingBack] @ out, r, fs2))
                  | (played, r, fs2) \<Rightarrow> (banner @ seen @ compiling @ played, r, fs2))))"


text \<open>\<open>compile(filePath)\<close>: the command \<open>compile\<close>; a failure ends the process with code 1.\<close>

definition compile :: "host \<Rightarrow> filesystem \<Rightarrow> string \<Rightarrow> event list \<times> unit result \<times> filesystem" where
  "compile h fs filePath =
     (case inkToJson h fs filePath None of
        (Returns jsonPath, seen, fs') \<Rightarrow>
          ([Compiling filePath] @ seen @ [Compiled jsonPath], Returns (), fs')
      | (Throws e, seen, fs') \<Rightarrow>
          ([Compiling filePath] @ seen @ [CompilationFailed e], Exits 1, fs')
      | (Exits n, seen, fs') \<Rightarrow> ([Compiling filePath] @ seen, Exits n, fs')
      | (AwaitsInput, seen, fs') \<Rightarrow> ([Compiling filePath] @ seen, AwaitsInput, fs'))"



section \<open>What a section offers, and the classification the specification words\<close>

text \<open>The choice list and the printed lines that one pass of the loop body computes.\<close>

definition sectionChoices :: "string list \<Rightarrow> string list" where
  "sectionChoices lines =
     fst (extractChoices (fst (sortLines lines ([], []))) ([], Map.empty))"

definition sectionNarrative :: "string list \<Rightarrow> event list" where
  "sectionNarrative lines = snd (sortLines lines ([], []))"

text \<open>
  The specification's choice line: it begins with a star and holds an arrow that a
  target name follows.
\<close>

fun arrowWithTarget :: "string \<Rightarrow> bool" where
  "arrowWithTarget [] = False"
| "arrowWithTarget (c # cs) =
     ((startsWith (c # cs) ''->'' \<and> dropWhile isSpace (drop 2 (c # cs)) \<noteq> [])
      \<or> arrowWithTarget cs)"

definition specChoiceLine :: "string \<Rightarrow> bool" where
  "specChoiceLine line = (startsWith line ''*'' \<and> arrowWithTarget line)"

text \<open>Two small stories for the examples below.\<close>

definition crossroads :: story_obj where
  "crossroads =
     \<lparr>own = [''start'' \<mapsto> [''You stand at a crossroads.'', ''* [Go left] -> left'',
                           ''* [Go right] -> right''],
             ''left'' \<mapsto> [''A treasure chest!'']],
      proto = None\<rparr>"


text \<open>
  What the first loop keeps true: the section that lines are being added to is a section
  of the map.
\<close>

definition currentBound :: "parse_state \<Rightarrow> bool" where
  "currentBound ps = (currentSection ps = [] \<or> sectionOf (story ps) (currentSection ps) \<noteq> None)"

text \<open>A story that names the section \<open>a\<close> twice.\<close>

definition twiceStory :: string where
  "twiceStory = ''=== a ==='' @ [CHR 0x0A] @ ''old'' @ [CHR 0x0A] @ ''=== b ==='' @ [CHR 0x0A] @ ''mid''
     @ [CHR 0x0A] @ ''=== a ==='' @ [CHR 0x0A, CHR 0x0A] @ ''new one'' @ [CHR 0x0A] @ ''new two''
     @ [CHR 0x0A] @ ''=== c ==='' @ [CHR 0x0A] @ ''end''"

section \<open>A host and an engine for the examples\<close>

text \<open>
  A Linux host whose \<open>path.join\<close> puts a slash between the parts, whose \<open>path.extname\<close>
  is the text from the last dot on, whose compiler always fails, and whose \<open>JSON.parse\<close>
  knows five documents.
\<close>

definition joinSlash :: "string list \<Rightarrow> string" where
  "joinSlash parts = foldr (\<lambda>p acc. if acc = [] then p else p @ ''/'' @ acc) parts []"

definition lastDot :: "string \<Rightarrow> string" where
  "lastDot p = (if CHR ''.'' \<in> set p then CHR ''.'' # rev (takeWhile (\<lambda>c. c \<noteq> CHR ''.'') (rev p)) else [])"

definition toyParse :: "string \<Rightarrow> string + json" where
  "toyParse text =
     (if text = ''null'' then Inr JNull
      else if text = ''{}'' then Inr (JObject [])
      else if text = ''{storyJson}'' then Inr (JObject [(''storyJson'', JString ''ink'')])
      else if text = ''{storyJson,state}''
        then Inr (JObject [(''storyJson'', JString ''ink''), (''state'', JString ''turn 3'')])
      else if text = ''{storyJson,state:1}''
        then Inr (JObject [(''storyJson'', JString ''ink''), (''state'', JNumber 1)])
      else Inl ''Unexpected token'')"

definition toyHost :: host where
  "toyHost =
     \<lparr>platform = ''linux'', homedir = ''/home/me'', cwd = ''/work'', dirname = ''/opt/calligrapher/dist'',
      pathJoin = joinSlash, extname = lastDot, basename = (\<lambda>p. p),
      execSync = (\<lambda>cmd fs. Inl ''Command failed''),
      writeFileSync = (\<lambda>fs p content. Inr (fs(p \<mapsto> File content))),
      jsonParse = toyParse, jsonStringify = (\<lambda>v. ''{storyJson,state}''), now = ''2024-01-01T00:00:00.000Z''\<rparr>"

text \<open>
  An engine whose stories are over at once, and which takes nothing but a string for the
  compiled story and for the state.
\<close>

definition strictEngine :: "unit engine" where
  "strictEngine =
     \<lparr>newStory = (\<lambda>j. case j of JString _ \<Rightarrow> Inr () | _ \<Rightarrow> Inl ''ink version number not found''),
      canContinue = (\<lambda>s. False), Continue = (\<lambda>s. Inl ''cannot continue''),
      currentChoices = (\<lambda>s. []), currentTags = (\<lambda>s. None),
      ChooseChoiceIndex = (\<lambda>s i. Inl ''choice out of range''),
      ToJson = (\<lambda>s. Inr ''ink''), stateToJson = (\<lambda>s. Inr ''turn 3''),
      stateLoadJson = (\<lambda>s j. case j of JString _ \<Rightarrow> Inr () | _ \<Rightarrow> Inl ''Unexpected token'')\<rparr>"

definition oneRoom :: string where
  "oneRoom = ''=== start ==='' @ [CHR 0x0A] @ ''Hello''"

definition noReplies :: replies where
  "noReplies = \<lparr>picks = [], confirms = [], paths = []\<rparr>"

section \<open>Properties of the presenter\<close>

lemma trim_empty_iff: "trim s = [] \<longleftrightarrow> (\<forall>c \<in> set s. isSpace c)"
proof
  assume "trim s = []"
  then have a: "\<forall>c \<in> set (dropWhile isSpace s). isSpace c"
    by (simp add: trim_def dropWhile_eq_Nil_conv)
  have "dropWhile isSpace s = []"
  proof (rule ccontr)
    assume n: "dropWhile isSpace s \<noteq> []"
    then have "\<not> isSpace (hd (dropWhile isSpace s))"
      by (rule hd_dropWhile)
    with a n show False
      by simp
  qed
  then show "\<forall>c \<in> set s. isSpace c"
    by (simp add: dropWhile_eq_Nil_conv)
next
  assume "\<forall>c \<in> set s. isSpace c"
  then have "dropWhile isSpace s = []"
    by (simp add: dropWhile_eq_Nil_conv)
  then show "trim s = []"
    by (auto simp: trim_def dest: set_dropWhileD)
qed

text \<open>
  C6. A text that is displayed (one that is not blank) gets exactly one console line, and
  its style is the one of the highest-priority tag among title, scene, combat and dialog
  that the tag list holds, plain when it holds none of them.
\<close>

theorem displayText_one_style_by_priority:
  "trim text \<noteq> [] \<Longrightarrow>
     displayText text tagList = [ShowText (specStyle tagList) text]"
  by (simp add: displayText_def specStyle_def priorityOrder_def)

theorem displayText_one_style_by_priority_witness:
  "trim ''Hello'' \<noteq> []
   \<and> displayText ''Hello'' [''dialog'', ''x'', ''scene''] = [ShowText Scene ''Hello'']"
proof -
  have h: "trim ''Hello'' \<noteq> []"
    by (simp add: trim_def isSpace_def)
  have s: "specStyle [''dialog'', ''x'', ''scene''] = Scene"
    by (simp add: specStyle_def priorityOrder_def)
  show ?thesis
    using h displayText_one_style_by_priority [OF h, of "[''dialog'', ''x'', ''scene'']"] s
    by simp
qed

text \<open>
  C9. Whatever the tags are, a text that is empty or made of white space only prints
  nothing.
\<close>

theorem displayText_blank_prints_nothing:
  "\<forall>c \<in> set text. isSpace c \<Longrightarrow> displayText text tagList = []"
  by (simp add: displayText_def trim_empty_iff)

theorem displayText_blank_prints_nothing_witness:
  "list_all isSpace ''  '' \<and> displayText ''  '' [''title'', ''combat''] = []"
proof -
  have h: "\<forall>c \<in> set ''  ''. isSpace c"
    by (simp add: isSpace_def)
  show ?thesis
    using h displayText_blank_prints_nothing [OF h, of "[''title'', ''combat'']"]
    by (simp add: list_all_iff)
qed

section \<open>Properties of the plain-text interpreter\<close>

lemma sortLines_filter:
  "sortLines ls (cl, pr) =
     (cl @ filter isCandidate ls, pr @ map Narrative (filter (\<lambda>l. \<not> isCandidate l) ls))"
  by (induction ls arbitrary: cl pr) auto

lemma extractChoices_map_filter:
  "fst (extractChoices cls (chs, tg)) =
     chs @ List.map_filter (\<lambda>l. map_option (\<lambda>m. choiceTextOf (fst m)) (choiceMatch l)) cls"
  by (induction cls arbitrary: chs tg)
     (auto simp: List.map_filter_simps Let_def split: option.splits)

text \<open>
  The matcher finds a match exactly when the pattern has one: the order in which it
  tries the alternatives only decides which text and target it extracts.
\<close>

lemma textThenArrow_Nil: "\<not> textThenArrow []"
  by (simp add: textThenArrow_def)

lemma textThenArrow_Cons:
  "textThenArrow (c # cs) \<longleftrightarrow>
     \<not> isLineTerminator c \<and> (arrowTarget cs \<noteq> None \<or> textThenArrow cs)"
proof
  assume "textThenArrow (c # cs)"
  then obtain g tail where g: "c # cs = g @ tail" "g \<noteq> []"
      "\<forall>c \<in> set g. \<not> isLineTerminator c" "arrowTarget tail \<noteq> None"
    unfolding textThenArrow_def by blast
  then obtain g' where g': "g = c # g'" "cs = g' @ tail"
    by (cases g) auto
  show "\<not> isLineTerminator c \<and> (arrowTarget cs \<noteq> None \<or> textThenArrow cs)"
  proof (cases "g' = []")
    case True
    with g g' show ?thesis by simp
  next
    case False
    with g g' have "textThenArrow cs"
      unfolding textThenArrow_def by auto
    with g g' show ?thesis by simp
  qed
next
  assume a: "\<not> isLineTerminator c \<and> (arrowTarget cs \<noteq> None \<or> textThenArrow cs)"
  show "textThenArrow (c # cs)"
  proof (cases "arrowTarget cs \<noteq> None")
    case True
    with a have "c # cs = [c] @ cs \<and> [c] \<noteq> [] \<and> (\<forall>x \<in> set [c]. \<not> isLineTerminator x)
        \<and> arrowTarget cs \<noteq> None"
      by simp
    then show ?thesis
      unfolding textThenArrow_def by blast
  next
    case False
    with a obtain g tail where g: "cs = g @ tail" "g \<noteq> []"
      "\<forall>c \<in> set g. \<not> isLineTerminator c" "arrowTarget tail \<noteq> None"
      unfolding textThenArrow_def by blast
    with a have "c # cs = (c # g) @ tail \<and> c # g \<noteq> []
        \<and> (\<forall>x \<in> set (c # g). \<not> isLineTerminator x) \<and> arrowTarget tail \<noteq> None"
      by simp
    then show ?thesis
      unfolding textThenArrow_def by blast
  qed
qed

lemma lazyText_iff: "lazyText acc s \<noteq> None \<longleftrightarrow> textThenArrow s"
proof (induction s arbitrary: acc)
  case Nil
  then show ?case by (simp add: textThenArrow_Nil)
next
  case (Cons c cs)
  then show ?case
    by (cases "arrowTarget cs") (simp_all add: textThenArrow_Cons)
qed

lemma spacesTextArrow_Nil: "\<not> spacesTextArrow []"
  by (simp add: spacesTextArrow_def textThenArrow_Nil)

lemma spacesTextArrow_Cons:
  "spacesTextArrow (c # cs) \<longleftrightarrow> textThenArrow (c # cs) \<or> (isSpace c \<and> spacesTextArrow cs)"
proof
  assume "spacesTextArrow (c # cs)"
  then obtain ws t where w: "c # cs = ws @ t" "\<forall>c \<in> set ws. isSpace c" "textThenArrow t"
    unfolding spacesTextArrow_def by blast
  show "textThenArrow (c # cs) \<or> (isSpace c \<and> spacesTextArrow cs)"
  proof (cases ws)
    case Nil
    with w show ?thesis by simp
  next
    case (Cons w' ws')
    with w have "isSpace c" "cs = ws' @ t" "\<forall>c \<in> set ws'. isSpace c" by auto
    with w(3) show ?thesis
      unfolding spacesTextArrow_def by blast
  qed
next
  assume "textThenArrow (c # cs) \<or> (isSpace c \<and> spacesTextArrow cs)"
  then show "spacesTextArrow (c # cs)"
  proof
    assume "textThenArrow (c # cs)"
    then have "c # cs = [] @ (c # cs) \<and> (\<forall>x \<in> set []. isSpace x) \<and> textThenArrow (c # cs)"
      by simp
    then show ?thesis
      unfolding spacesTextArrow_def by blast
  next
    assume a: "isSpace c \<and> spacesTextArrow cs"
    then obtain ws t where "cs = ws @ t" "\<forall>c \<in> set ws. isSpace c" "textThenArrow t"
      unfolding spacesTextArrow_def by blast
    with a have "c # cs = (c # ws) @ t \<and> (\<forall>x \<in> set (c # ws). isSpace x) \<and> textThenArrow t"
      by simp
    then show ?thesis
      unfolding spacesTextArrow_def by blast
  qed
qed

lemma greedySpaces_iff: "greedySpaces s \<noteq> None \<longleftrightarrow> spacesTextArrow s"
proof (induction s)
  case Nil
  then show ?case by (simp add: spacesTextArrow_Nil)
next
  case (Cons c cs)
  show ?case
  proof (cases "greedySpaces cs")
    case None
    with Cons.IH lazyText_iff [of "[]" "c # cs"] show ?thesis
      by (simp add: spacesTextArrow_Cons del: lazyText.simps)
  next
    case (Some m)
    with Cons.IH lazyText_iff [of "[]" "c # cs"] show ?thesis
      by (simp add: spacesTextArrow_Cons del: lazyText.simps)
  qed
qed

lemma choiceMatch_iff: "choiceMatch line \<noteq> None \<longleftrightarrow> arrowPattern line"
proof (cases line)
  case Nil
  then show ?thesis
    using greedySpaces_iff [of "[]"] by (simp add: choiceMatch_def arrowPattern_def)
next
  case (Cons c cs)
  show ?thesis
  proof (cases "c = CHR ''*''")
    case True
    with Cons greedySpaces_iff [of cs] greedySpaces_iff [of line] show ?thesis
      by (cases "greedySpaces cs") (auto simp: choiceMatch_def arrowPattern_def)
  next
    case False
    with Cons greedySpaces_iff [of line] show ?thesis
      by (auto simp: choiceMatch_def arrowPattern_def)
  qed
qed

text \<open>
  A name that is neither a section nor inherited from the prototype is reported, and the
  loop ends there.
\<close>

lemma story_get_undefined:
  "sectionOf st k = None \<Longrightarrow> proto st = None \<Longrightarrow> k \<notin> set objectPrototypeKeys \<Longrightarrow>
     story_get st k = VUndefined"
  by (auto simp: story_get_def sectionOf_def objectPrototypeKeys_def split: if_splits)

lemma runLoop_undefined_section:
  "story_get st current = VUndefined \<Longrightarrow>
     runLoop st current answers = ([SectionNotFound current], current, Returns ())"
  by (subst runLoop.simps) (simp add: truthy_def)

text \<open>
  The menu half of C1 holds: in a section whose choice list has N entries, N at least 1,
  whatever the player answers the trace of the loop begins with the narrative lines and
  a menu of the N choices followed by \<open>Quit\<close>, N + 1 entries.
\<close>

lemma runLoop_menu:
  assumes sec: "story_get st current = VLines lines"
      and ne: "sectionChoices lines \<noteq> []"
  shows "(\<exists>tail. fst (runLoop st current answers) =
            sectionNarrative lines @ SelectPrompt (sectionChoices lines @ [''Quit'']) # tail)
         \<and> length (sectionChoices lines @ [''Quit'']) = length (sectionChoices lines) + 1"
proof -
  obtain cl pr where sl: "sortLines lines ([], []) = (cl, pr)"
    by (cases "sortLines lines ([], [])")
  obtain chs tg where ex: "extractChoices cl ([], Map.empty) = (chs, tg)"
    by (cases "extractChoices cl ([], Map.empty)")
  from sl ex have ch: "sectionChoices lines = chs"
    by (simp add: sectionChoices_def)
  from sl have na: "sectionNarrative lines = pr"
    by (simp add: sectionNarrative_def)
  from ne ch have ne': "chs \<noteq> []"
    by simp
  have "\<exists>tail. fst (runLoop st current answers) = pr @ SelectPrompt (chs @ [''Quit'']) # tail"
  proof (cases answers)
    case Nil
    then show ?thesis
      using sec sl ex ne'
      by (subst runLoop.simps) (simp add: truthy_def iterate_def)
  next
    case (Cons a as)
    then show ?thesis
      using sec sl ex ne'
      by (subst runLoop.simps) (simp add: truthy_def iterate_def Let_def split: prod.splits)
  qed
  with ch na show ?thesis
    by simp
qed

text \<open>
  The decimal form of a number is made of digits, so the name \<open>Quit\<close> is no index of
  the menu; it is no property of an array either, and \<open>choices['Quit']\<close> is \<open>undefined\<close>.
\<close>

lemma showNat_digits: "\<forall>c \<in> set (showNat n). 48 \<le> (of_char c :: nat) \<and> (of_char c :: nat) \<le> 57"
proof (induction n rule: showNat.induct)
  case (1 n)
  show ?case
  proof (cases "n < 10")
    case True
    then show ?thesis
      by (subst showNat.simps) simp
  next
    case False
    have "n mod 10 < 10" by simp
    then have "48 + n mod 10 < 256" by simp
    with False "1.IH" show ?thesis
      by (subst showNat.simps) auto
  qed
qed

lemma showNat_not_Quit: "showNat i \<noteq> ''Quit''"
proof
  assume "showNat i = ''Quit''"
  with showNat_digits [of i] show False
    by simp
qed

lemma choicesAt_Quit: "choicesAt menu ''Quit'' = PUndefined"
proof -
  have "find (\<lambda>i. showNat i = ''Quit'') [0..<length menu] = None"
    by (simp add: find_None_iff showNat_not_Quit)
  then show ?thesis
    by (simp add: choicesAt_def arrayPrototypeKeys_def objectPrototypeKeys_def)
qed

text \<open>
  So picking \<open>Quit\<close> never ends the loop: the loop goes on with the rest of the answers,
  from the section that \<open>targets['undefined'] || current\<close> names, which is the same
  section unless a choice of it has the text \<open>undefined\<close>.
\<close>

lemma runLoop_Quit_goes_on:
  assumes sec: "story_get st current = VLines lines"
      and ne: "sectionChoices lines \<noteq> []"
  shows "\<exists>next. runLoop st current (''Quit'' # rest) =
           (case runLoop st next rest of
              (out, final, r) \<Rightarrow>
                (sectionNarrative lines @ [SelectPrompt (sectionChoices lines @ [''Quit''])] @ out,
                 final, r))"
proof -
  obtain cl pr where sl: "sortLines lines ([], []) = (cl, pr)"
    by (cases "sortLines lines ([], [])")
  obtain chs tg where ex: "extractChoices cl ([], Map.empty) = (chs, tg)"
    by (cases "extractChoices cl ([], Map.empty)")
  from sl ex have ch: "sectionChoices lines = chs"
    by (simp add: sectionChoices_def)
  from sl have na: "sectionNarrative lines = pr"
    by (simp add: sectionNarrative_def)
  from ne ch have ne': "chs \<noteq> []"
    by simp
  have "runLoop st current (''Quit'' # rest) =
           (case runLoop st (targets_or tg ''undefined'' current) rest of
              (out, final, r) \<Rightarrow> (pr @ [SelectPrompt (chs @ [''Quit''])] @ out, final, r))"
    using sec sl ex ne'
    by (subst runLoop.simps)
       (simp add: truthy_def iterate_def choicesAt_Quit pickedKey_def)
  with ch na show ?thesis
    by auto
qed

text \<open>
  C1 fails on the code in its second half. At the crossroads, whose menu is \<open>Go left\<close>,
  \<open>Go right\<close>, \<open>Quit\<close>, the player picks \<open>Quit\<close>, twice. The prompt resolves to the
  name \<open>Quit\<close>, \<open>choices['Quit']\<close> is \<open>undefined\<close> and not the string \<open>Quit\<close>, and
  each time the loop prints the section and asks again, where the claim has it end.
\<close>

theorem runLoop_Quit_does_not_end:
  "story_get crossroads ''start'' = VLines [''You stand at a crossroads.'',
       ''* [Go left] -> left'', ''* [Go right] -> right'']
   \<and> sectionChoices [''You stand at a crossroads.'', ''* [Go left] -> left'',
         ''* [Go right] -> right''] = [''Go left'', ''Go right'']
   \<and> runLoop crossroads ''start'' [''Quit'', ''Quit''] =
       ([Narrative ''You stand at a crossroads.'',
         SelectPrompt [''Go left'', ''Go right'', ''Quit''],
         Narrative ''You stand at a crossroads.'',
         SelectPrompt [''Go left'', ''Go right'', ''Quit''],
         Narrative ''You stand at a crossroads.'',
         SelectPrompt [''Go left'', ''Go right'', ''Quit'']], ''start'', AwaitsInput)"
proof -
  have sec: "story_get crossroads ''start'' = VLines [''You stand at a crossroads.'',
       ''* [Go left] -> left'', ''* [Go right] -> right'']"
    by (simp add: crossroads_def story_get_def)
  have ch: "sectionChoices [''You stand at a crossroads.'', ''* [Go left] -> left'',
         ''* [Go right] -> right''] = [''Go left'', ''Go right'']"
    by code_simp
  have run: "runLoop crossroads ''start'' [''Quit'', ''Quit''] =
       ([Narrative ''You stand at a crossroads.'',
         SelectPrompt [''Go left'', ''Go right'', ''Quit''],
         Narrative ''You stand at a crossroads.'',
         SelectPrompt [''Go left'', ''Go right'', ''Quit''],
         Narrative ''You stand at a crossroads.'',
         SelectPrompt [''Go left'', ''Go right'', ''Quit'']], ''start'', AwaitsInput)"
    by code_simp
  from sec ch run show ?thesis
    by simp
qed

text \<open>
  C2, as the specification states it, fails in both directions. A line that begins with
  a star and has no arrow is not a choice line of the specification, and it is not
  printed. A line that holds \<open>[Exit]\<close> and an arrow becomes a choice although it does
  not begin with a star.
\<close>

theorem choice_classification_counterexample:
  "\<not> specChoiceLine ''* a remark''
   \<and> sectionNarrative [''* a remark''] = []
   \<and> sectionChoices [''* a remark''] = []
   \<and> \<not> specChoiceLine ''[Exit] -> bye''
   \<and> sectionChoices [''[Exit] -> bye''] = [''Exit'']"
  by code_simp

text \<open>
  C2, amended. A line of a section is a candidate choice when it begins with a star or
  holds \<open>[exit]\<close> in any case of letters. The lines that are not candidates are printed,
  in the order of the section, and no other line is. The choices are the candidates that
  match the arrow pattern, in the order of the section, each with the text the pattern
  extracts.
\<close>

theorem choice_classification_amended:
  "sortLines lines ([], []) =
     (filter isCandidate lines, map Narrative (filter (\<lambda>l. \<not> isCandidate l) lines))
   \<and> sectionNarrative lines = map Narrative (filter (\<lambda>l. \<not> isCandidate l) lines)
   \<and> sectionChoices lines =
       List.map_filter (\<lambda>l. map_option (\<lambda>m. choiceTextOf (fst m)) (choiceMatch l))
         (filter isCandidate lines)"
  using sortLines_filter [of lines "[]" "[]"]
    extractChoices_map_filter [of "filter isCandidate lines" "[]" Map.empty]
  by (simp add: sectionNarrative_def sectionChoices_def)


section \<open>Properties of the parser\<close>


lemma story_get_sectionOf:
  "story_get st k = VLines ls \<longleftrightarrow> sectionOf st k = Some ls"
  by (auto simp: story_get_def sectionOf_def split: option.splits)

lemma sectionOf_reset: "sectionOf (story_reset st k) = (sectionOf st)(k \<mapsto> [])"
  by (rule ext) (simp add: sectionOf_def story_reset_def)

lemma story_push_bound:
  assumes "sectionOf st k = Some ls"
  shows "\<exists>st'. story_push st k line = Inr st' \<and> sectionOf st' = (sectionOf st)(k \<mapsto> ls @ [line])"
proof -
  from assms have g: "story_get st k = VLines ls"
    by (simp add: story_get_sectionOf)
  show ?thesis
    using g by (auto simp: story_push_def sectionOf_def fun_eq_iff)
qed

lemma parseStep_marker:
  "isMarker l \<Longrightarrow>
     \<exists>ps'. parseStep ps l = Inr ps' \<and> currentSection ps' = markerName l
       \<and> sectionOf (story ps') = (sectionOf (story ps))(markerName l \<mapsto> [])"
  by (simp add: parseStep_def Let_def sectionOf_reset)

lemma parseStep_skip:
  "\<not> isMarker l \<Longrightarrow> currentSection ps = [] \<or> trim l = [] \<Longrightarrow> parseStep ps l = Inr ps"
  by (auto simp: parseStep_def)

lemma parseStep_push:
  assumes "\<not> isMarker l" "currentSection ps \<noteq> []" "trim l \<noteq> []"
    "sectionOf (story ps) (currentSection ps) = Some ls"
  shows "\<exists>ps'. parseStep ps l = Inr ps' \<and> currentSection ps' = currentSection ps
       \<and> sectionOf (story ps') = (sectionOf (story ps))(currentSection ps \<mapsto> ls @ [l])"
proof -
  from story_push_bound [OF assms(4), of l] obtain st'
    where "story_push (story ps) (currentSection ps) l = Inr st'"
      and "sectionOf st' = (sectionOf (story ps))(currentSection ps \<mapsto> ls @ [l])"
    by blast
  with assms(1-3) show ?thesis
    by (simp add: parseStep_def)
qed

lemma parseStep_bound:
  assumes "currentBound ps"
  shows "\<exists>ps'. parseStep ps l = Inr ps' \<and> currentBound ps'
     \<and> (\<forall>n. (isMarker l \<longrightarrow> markerName l \<noteq> n) \<longrightarrow> currentSection ps \<noteq> n \<longrightarrow>
            currentSection ps' \<noteq> n \<and> sectionOf (story ps') n = sectionOf (story ps) n)"
proof (cases "isMarker l")
  case True
  from parseStep_marker [OF True, of ps] show ?thesis
    using True by (auto simp: currentBound_def)
next
  case False
  show ?thesis
  proof (cases "currentSection ps = [] \<or> trim l = []")
    case True
    with False assms show ?thesis
      by (simp add: parseStep_skip)
  next
    case nb: False
    with assms obtain ls where ls: "sectionOf (story ps) (currentSection ps) = Some ls"
      by (auto simp: currentBound_def)
    from nb have "currentSection ps \<noteq> []" "trim l \<noteq> []" by simp_all
    from parseStep_push [OF False this ls] show ?thesis
      by (auto simp: currentBound_def)
  qed
qed

lemma parseLines_append:
  "parseLines (xs @ ys) ps =
     (case parseLines xs ps of Inl e \<Rightarrow> Inl e | Inr ps' \<Rightarrow> parseLines ys ps')"
  by (induction xs arbitrary: ps) (auto split: sum.splits)

lemma parseLines_bound:
  "currentBound ps \<Longrightarrow> \<exists>ps'. parseLines ls ps = Inr ps' \<and> currentBound ps'"
proof (induction ls arbitrary: ps)
  case Nil
  then show ?case by simp
next
  case (Cons l ls)
  from parseStep_bound [OF Cons.prems, of l] obtain ps1
    where "parseStep ps l = Inr ps1" "currentBound ps1" by blast
  with Cons.IH [of ps1] show ?case by simp
qed

lemma parseLines_others:
  "currentBound ps \<Longrightarrow> currentSection ps \<noteq> n \<Longrightarrow>
   \<forall>l \<in> set ls. isMarker l \<longrightarrow> markerName l \<noteq> n \<Longrightarrow>
   \<exists>ps'. parseLines ls ps = Inr ps' \<and> sectionOf (story ps') n = sectionOf (story ps) n"
proof (induction ls arbitrary: ps)
  case Nil
  then show ?case by simp
next
  case (Cons l ls)
  from parseStep_bound [OF Cons.prems(1), of l] Cons.prems(2,3) obtain ps1
    where s: "parseStep ps l = Inr ps1" "currentBound ps1" "currentSection ps1 \<noteq> n"
      "sectionOf (story ps1) n = sectionOf (story ps) n"
    by auto
  from Cons.IH [OF s(2,3)] Cons.prems(3) s(1,4) show ?case by auto
qed

lemma parseLines_body:
  "\<forall>l \<in> set body. \<not> isMarker l \<Longrightarrow> currentSection ps \<noteq> [] \<Longrightarrow>
   sectionOf (story ps) (currentSection ps) = Some ls \<Longrightarrow>
   \<exists>ps'. parseLines body ps = Inr ps' \<and> currentSection ps' = currentSection ps
     \<and> sectionOf (story ps') (currentSection ps) = Some (ls @ filter (\<lambda>l. trim l \<noteq> []) body)"
proof (induction body arbitrary: ps ls)
  case Nil
  then show ?case by simp
next
  case (Cons l body)
  show ?case
  proof (cases "trim l = []")
    case True
    with Cons.prems have "parseStep ps l = Inr ps"
      by (simp add: parseStep_skip)
    with Cons.IH [of ps ls] Cons.prems True show ?thesis by simp
  next
    case False
    from Cons.prems have nm: "\<not> isMarker l" by simp
    from parseStep_push [OF nm Cons.prems(2) False Cons.prems(3)] obtain ps1
      where s: "parseStep ps l = Inr ps1" "currentSection ps1 = currentSection ps"
        "sectionOf (story ps1) = (sectionOf (story ps))(currentSection ps \<mapsto> ls @ [l])"
      by blast
    from Cons.IH [of ps1 "ls @ [l]"] Cons.prems s False show ?thesis by simp
  qed
qed

lemma parseLines_body_skip:
  "\<forall>l \<in> set body. \<not> isMarker l \<Longrightarrow> currentSection ps = [] \<Longrightarrow> parseLines body ps = Inr ps"
  by (induction body) (simp_all add: parseStep_skip)

lemma contentLines_nonblank: "l \<in> set (contentLines content) \<Longrightarrow> trim l \<noteq> []"
  by (simp add: contentLines_def)

text \<open>
  C10. Take the last marker line of a name in the input, the lines after it up to the
  next marker line (or to the end), and the rest. Parsing succeeds, and the section map
  binds the name to exactly those lines: whatever followed an earlier marker of the
  same name is gone. (For the empty name, which the loop never adds lines to, the
  section is empty.)
\<close>

theorem parseStory_last_marker_wins:
  assumes split: "contentLines content = pre @ m # body @ rest"
      and m: "isMarker m" "markerName m = name"
      and body: "\<forall>l \<in> set body. \<not> isMarker l"
      and nxt: "rest = [] \<or> isMarker (hd rest)"
      and last: "\<forall>l \<in> set rest. isMarker l \<longrightarrow> markerName l \<noteq> name"
  shows "\<exists>st. parseStory content = Inr st
           \<and> sectionOf st name = Some (if name = [] then [] else body)
           \<and> story_get st name = VLines (if name = [] then [] else body)"
proof -
  have b0: "currentBound initialParse"
    by (simp add: currentBound_def initialParse_def)
  from parseLines_bound [OF b0, of pre] obtain ps1
    where p1: "parseLines pre initialParse = Inr ps1" by blast
  from parseStep_marker [OF m(1), of ps1] m(2) obtain ps2
    where p2: "parseStep ps1 m = Inr ps2" "currentSection ps2 = name"
      "sectionOf (story ps2) name = Some []"
    by auto
  have nb: "filter (\<lambda>l. trim l \<noteq> []) body = body"
    using split contentLines_nonblank [of _ content] by (auto simp: filter_id_conv)
  have "\<exists>ps3. parseLines body ps2 = Inr ps3 \<and> currentBound ps3
            \<and> sectionOf (story ps3) name = Some (if name = [] then [] else body)
            \<and> (currentSection ps3 = name)"
  proof (cases "name = []")
    case True
    with parseLines_body_skip [OF body, of ps2] p2 show ?thesis
      by (simp add: currentBound_def)
  next
    case False
    with parseLines_body [OF body, of ps2 "[]"] p2 nb show ?thesis
      by (auto simp: currentBound_def)
  qed
  then obtain ps3 where p3: "parseLines body ps2 = Inr ps3" "currentBound ps3"
      "sectionOf (story ps3) name = Some (if name = [] then [] else body)"
      "currentSection ps3 = name"
    by blast
  have "\<exists>ps4. parseLines rest ps3 = Inr ps4
           \<and> sectionOf (story ps4) name = Some (if name = [] then [] else body)"
  proof (cases rest)
    case Nil
    with p3 show ?thesis by simp
  next
    case (Cons r rs)
    with nxt last have r: "isMarker r" "markerName r \<noteq> name" by simp_all
    from parseStep_marker [OF r(1), of ps3] obtain ps'
      where s: "parseStep ps3 r = Inr ps'" "currentSection ps' = markerName r"
        "sectionOf (story ps') = (sectionOf (story ps3))(markerName r \<mapsto> [])"
      by blast
    from s have b: "currentBound ps'" by (simp add: currentBound_def)
    from s r have c: "currentSection ps' \<noteq> name" by simp
    from last Cons have l: "\<forall>l \<in> set rs. isMarker l \<longrightarrow> markerName l \<noteq> name" by simp
    from parseLines_others [OF b c l] obtain ps4
      where "parseLines rs ps' = Inr ps4" "sectionOf (story ps4) name = sectionOf (story ps') name"
      by blast
    with s r p3 Cons show ?thesis by simp
  qed
  then obtain ps4 where p4: "parseLines rest ps3 = Inr ps4"
      "sectionOf (story ps4) name = Some (if name = [] then [] else body)"
    by blast
  have "parseLines (pre @ m # body @ rest) initialParse = Inr ps4"
    using p1 p2 p3 p4 by (simp add: parseLines_append)
  with split p4 show ?thesis
    by (simp add: parseStory_def story_get_sectionOf)
qed

theorem parseStory_last_marker_wins_witness:
  "\<exists>st. parseStory twiceStory = Inr st
           \<and> sectionOf st ''a'' = Some [''new one'', ''new two'']
           \<and> story_get st ''a'' = VLines [''new one'', ''new two'']"
proof -
  have split: "contentLines twiceStory =
     [''=== a ==='', ''old'', ''=== b ==='', ''mid''] @ ''=== a ==='' # [''new one'', ''new two'']
       @ [''=== c ==='', ''end'']"
    by code_simp
  have m: "isMarker ''=== a ===''" "markerName ''=== a ==='' = ''a''"
    by code_simp+
  have body: "\<forall>l \<in> set [''new one'', ''new two'']. \<not> isMarker l"
    by code_simp
  have nxt: "[''=== c ==='', ''end''] = [] \<or> isMarker (hd [''=== c ==='', ''end''])"
    by code_simp
  have last: "\<forall>l \<in> set [''=== c ==='', ''end'']. isMarker l \<longrightarrow> markerName l \<noteq> ''a''"
    by code_simp
  show ?thesis
    using parseStory_last_marker_wins [OF split m body nxt last]
    by simp
qed

section \<open>Properties of the compiler adapter\<close>

lemma probePaths_none:
  "\<forall>p \<in> set ps. \<not> existsSync fs p \<Longrightarrow>
     probePaths h fs ps seen = (None, seen @ map ExistsSync ps)"
  by (induction ps arbitrary: seen) simp_all

lemma probeLinux_none:
  "\<forall>p \<in> set ps. \<not> existsSync fs p \<Longrightarrow>
     probeLinux fs ps seen = (None, seen @ map ExistsSync ps)"
  by (induction ps arbitrary: seen) simp_all

lemma linuxPaths_possible: "set linuxPaths \<subseteq> set (possiblePaths h)"
  by (simp add: linuxPaths_def possiblePaths_def)

lemma findInklecate_none:
  assumes "\<forall>p \<in> set (possiblePaths h). \<not> existsSync fs p"
  shows "findInklecate h fs =
           (None, map ExistsSync (possiblePaths h)
                  @ (if platform h = ''linux'' then map ExistsSync linuxPaths else []))"
proof -
  from assms linuxPaths_possible [of h] have "\<forall>p \<in> set linuxPaths. \<not> existsSync fs p"
    by blast
  with assms show ?thesis
    by (simp add: findInklecate_def probePaths_none probeLinux_none)
qed

text \<open>
  C4. When the input path does not exist, \<open>compileInk\<close> returns the failure that names
  the missing input file. Its whole trace is the one test of the input path: no
  candidate location of the compiler is probed and no subprocess is started, and the
  files are as they were.
\<close>

theorem compileInk_missing_input:
  "\<not> existsSync fs (inputPath options) \<Longrightarrow>
     compileInk h fs options =
       (\<lparr>success = False, outputPath = None,
         error = Some (''Input file not found: '' @ inputPath options), inklecatePath = None\<rparr>,
        [ExistsSync (inputPath options)], fs)"
  by (simp add: compileInk_def failure_def)

theorem compileInk_missing_input_witness:
  "compileInk toyHost Map.empty \<lparr>inputPath = ''story.ink'', outputPathOption = None, verbose = True\<rparr> =
       (\<lparr>success = False, outputPath = None,
         error = Some ''Input file not found: story.ink'', inklecatePath = None\<rparr>,
        [ExistsSync ''story.ink''], Map.empty)"
proof -
  have h: "\<not> existsSync Map.empty (inputPath \<lparr>inputPath = ''story.ink'', outputPathOption = None, verbose = True\<rparr>)"
    by (simp add: existsSync_def)
  show ?thesis
    using compileInk_missing_input [OF h, of toyHost] by simp
qed

text \<open>
  C5. When the input exists and has the extension \<open>.ink\<close> (in any case of letters) and
  none of the candidate paths exists, \<open>compileInk\<close> returns, and what it returns is the
  failure \<open>inklecate compiler not found.\<close>; the trace holds the probes only, no
  subprocess, and the files are as they were.
\<close>

theorem compileInk_compiler_not_found:
  assumes "existsSync fs (inputPath options)"
      and "toLowerCase (extname h (inputPath options)) = ''.ink''"
      and "\<forall>p \<in> set (possiblePaths h). \<not> existsSync fs p"
  shows "compileInk h fs options =
       (\<lparr>success = False, outputPath = None,
         error = Some ''inklecate compiler not found.'', inklecatePath = Some []\<rparr>,
        ExistsSync (inputPath options) # map ExistsSync (possiblePaths h)
          @ (if platform h = ''linux'' then map ExistsSync linuxPaths else []),
        fs)"
  using assms(1,2) findInklecate_none [OF assms(3)]
  by (simp add: compileInk_def)

theorem compileInk_compiler_not_found_witness:
  "fst (compileInk toyHost [''story.ink'' \<mapsto> File ''Once upon a time''] 
         \<lparr>inputPath = ''story.ink'', outputPathOption = None, verbose = False\<rparr>) =
       \<lparr>success = False, outputPath = None,
         error = Some ''inklecate compiler not found.'', inklecatePath = Some []\<rparr>"
proof -
  let ?fs = "[''story.ink'' \<mapsto> File ''Once upon a time'']"
  let ?o = "\<lparr>inputPath = ''story.ink'', outputPathOption = None, verbose = False\<rparr>"
  have a: "existsSync ?fs (inputPath ?o)"
    by (simp add: existsSync_def)
  have b: "toLowerCase (extname toyHost (inputPath ?o)) = ''.ink''"
    by code_simp
  have c: "\<forall>p \<in> set (possiblePaths toyHost). \<not> existsSync ?fs p"
    by code_simp
  show ?thesis
    using compileInk_compiler_not_found [OF a b c] by simp
qed

section \<open>Properties of the commands\<close>

text \<open>
  C8. In \<open>runInkStory\<close>, when no compiler is found the warning is printed and the run
  goes on as \<open>runTextStory\<close> on the same file; when the compiler is found and the
  compilation fails, the failure is printed and the run goes on as \<open>runTextStory\<close> on
  the same file. In both cases the result of the run is the result of the plain-text
  interpreter. In the command \<open>compile\<close>, a failed compilation is printed and the
  process ends with the exit code 1.
\<close>

theorem runInkStory_falls_back_compile_is_fatal:
  "(findInklecate h fs = (None, seen) \<longrightarrow>
      runInkStory h eng fs verbosity filePath selections rp =
        ((if verbosity > 0 then [Compiling filePath] else []) @ seen @ [CompilerMissing]
           @ fst (runTextStory fs filePath selections),
         snd (runTextStory fs filePath selections), fs))
   \<and> (findInklecate h fs = (Some compiler, seen)
        \<and> compileInk h fs \<lparr>inputPath = filePath, outputPathOption = Some (inkToJsonName filePath),
                              verbose = (verbosity > 0)\<rparr> = (res, compiling, fs1)
        \<and> \<not> success res \<and> error res = Some msg \<longrightarrow>
      runInkStory h eng fs verbosity filePath selections rp =
        ((if verbosity > 0 then [Compiling filePath] else []) @ seen @ compiling
           @ [CompilationFailed msg, FallingBack] @ fst (runTextStory fs1 filePath selections),
         snd (runTextStory fs1 filePath selections), fs1))
   \<and> (compileInk h fs \<lparr>inputPath = filePath, outputPathOption = None, verbose = False\<rparr>
          = (res, compiling, fs1)
        \<and> \<not> success res \<and> error res = Some msg \<longrightarrow>
      (\<exists>help. compile h fs filePath =
         ([Compiling filePath] @ compiling @ help @ [CompilationFailed msg], Exits 1, fs1)))"
  by (auto simp: runInkStory_def compile_def inkToJson_def Let_def split: prod.splits)


theorem runInkStory_falls_back_compile_is_fatal_witness:
  "runTextStory [''story.ink'' \<mapsto> File oneRoom] ''story.ink'' [] =
     ([ReadFileSync ''story.ink'', LoadedFile ''story.ink'', Narrative ''Hello'',
       EndOfSection, PrintFooter], Returns ())
   \<and> fst (snd (runInkStory toyHost strictEngine [''story.ink'' \<mapsto> File oneRoom] 0
                 ''story.ink'' [] noReplies)) = Returns ()
   \<and> fst (snd (runInkStory toyHost strictEngine
                 [''story.ink'' \<mapsto> File oneRoom, ''/usr/bin/inklecate'' \<mapsto> File ''#!'']
                 0 ''story.ink'' [] noReplies)) = Returns ()
   \<and> fst (snd (compile toyHost
                 [''story.ink'' \<mapsto> File oneRoom, ''/usr/bin/inklecate'' \<mapsto> File ''#!'']
                 ''story.ink'')) = Exits 1"
proof -
  let ?a = "[''story.ink'' \<mapsto> File oneRoom]"
  let ?b = "[''story.ink'' \<mapsto> File oneRoom, ''/usr/bin/inklecate'' \<mapsto> File ''#!'']"
  let ?o = "\<lparr>inputPath = ''story.ink'', outputPathOption = Some (inkToJsonName ''story.ink''),
             verbose = ((0::nat) > 0)\<rparr>"
  let ?p = "\<lparr>inputPath = ''story.ink'', outputPathOption = None, verbose = False\<rparr>"
  have t: "runTextStory ?a ''story.ink'' [] =
     ([ReadFileSync ''story.ink'', LoadedFile ''story.ink'', Narrative ''Hello'',
       EndOfSection, PrintFooter], Returns ())"
    by code_simp
  have t': "snd (runTextStory ?b ''story.ink'' []) = Returns ()"
    by code_simp
  have f1: "findInklecate toyHost ?a = (None, snd (findInklecate toyHost ?a))"
    by code_simp
  have f2: "findInklecate toyHost ?b = (Some ''/usr/bin/inklecate'', snd (findInklecate toyHost ?b))"
    by code_simp
  have c2: "compileInk toyHost ?b ?o =
              (fst (compileInk toyHost ?b ?o), fst (snd (compileInk toyHost ?b ?o)), ?b)"
    by (simp add: compileInk_def toyHost_def Let_def split: prod.splits option.splits)
  have s2: "\<not> success (fst (compileInk toyHost ?b ?o))"
       "error (fst (compileInk toyHost ?b ?o)) = Some ''Compilation failed: Command failed''"
    by code_simp+
  have c3: "compileInk toyHost ?b ?p =
              (fst (compileInk toyHost ?b ?p), fst (snd (compileInk toyHost ?b ?p)), ?b)"
    by (simp add: compileInk_def toyHost_def Let_def split: prod.splits option.splits)
  have s3: "\<not> success (fst (compileInk toyHost ?b ?p))"
       "error (fst (compileInk toyHost ?b ?p)) = Some ''Compilation failed: Command failed''"
    by code_simp+
  note w = runInkStory_falls_back_compile_is_fatal
  from w [where h = toyHost and fs = ?a and seen = "snd (findInklecate toyHost ?a)"
             and eng = strictEngine and verbosity = 0 and filePath = "''story.ink''"
             and selections = "[]" and rp = noReplies]
    f1 t
  have r1: "fst (snd (runInkStory toyHost strictEngine ?a 0 ''story.ink'' [] noReplies)) = Returns ()"
    by simp
  from w [where h = toyHost and fs = ?b and seen = "snd (findInklecate toyHost ?b)"
             and eng = strictEngine and verbosity = 0 and filePath = "''story.ink''"
             and selections = "[]" and rp = noReplies and compiler = "''/usr/bin/inklecate''"
             and res = "fst (compileInk toyHost ?b ?o)"
             and compiling = "fst (snd (compileInk toyHost ?b ?o))" and ?fs1.0 = ?b
             and msg = "''Compilation failed: Command failed''"]
    f2 c2 s2 t'
  have r2: "fst (snd (runInkStory toyHost strictEngine ?b 0 ''story.ink'' [] noReplies)) = Returns ()"
    by simp
  note w3 = w [where h = toyHost and fs = ?b and filePath = "''story.ink''"
             and res = "fst (compileInk toyHost ?b ?p)"
             and compiling = "fst (snd (compileInk toyHost ?b ?p))" and ?fs1.0 = ?b
             and msg = "''Compilation failed: Command failed''", THEN conjunct2, THEN conjunct2,
             rule_format]
  from w3 [OF conjI [OF c3 conjI [OF s3]]]
  have r3: "fst (snd (compile toyHost ?b ''story.ink'')) = Exits 1"
    by auto
  from t r1 r2 r3 show ?thesis
    by simp
qed



end
